theory Spec2Isabelle
  imports Complex_Main
begin

section \<open>Numeric and memory model\<close>

text \<open>
  The source computes on C++ \<^verbatim>\<open>float\<close>. A \<open>float\<close> here is a real number or one
  of the IEEE special values the source itself writes (\<^verbatim>\<open>numeric_limits<float>::infinity()\<close>,
  its negation) or can produce from them (not-a-number). Rounding and overflow of finite
  values are idealised away; signed zeros are not distinguished, so a division by a zero
  divisor is read as a division by \<open>+0\<close>.
\<close>

datatype float = NaN | MInf | Fin real | PInf

fun fsgn :: "float \<Rightarrow> int" where
  "fsgn NaN = 0"
| "fsgn MInf = - 1"
| "fsgn PInf = 1"
| "fsgn (Fin x) = (if x < 0 then - 1 else if x = 0 then 0 else 1)"

fun fneg :: "float \<Rightarrow> float" where
  "fneg NaN = NaN"
| "fneg MInf = PInf"
| "fneg PInf = MInf"
| "fneg (Fin x) = Fin (- x)"

fun fadd :: "float \<Rightarrow> float \<Rightarrow> float" where
  "fadd NaN y = NaN"
| "fadd x NaN = NaN"
| "fadd (Fin x) (Fin y) = Fin (x + y)"
| "fadd PInf MInf = NaN"
| "fadd MInf PInf = NaN"
| "fadd PInf y = PInf"
| "fadd x PInf = PInf"
| "fadd MInf y = MInf"
| "fadd x MInf = MInf"

definition fsub :: "float \<Rightarrow> float \<Rightarrow> float" where
  "fsub x y = fadd x (fneg y)"

fun fmul :: "float \<Rightarrow> float \<Rightarrow> float" where
  "fmul NaN y = NaN"
| "fmul x NaN = NaN"
| "fmul (Fin x) (Fin y) = Fin (x * y)"
| "fmul x y = (let s = fsgn x * fsgn y in if s = 0 then NaN else if 0 < s then PInf else MInf)"

fun fdiv :: "float \<Rightarrow> float \<Rightarrow> float" where
  "fdiv NaN y = NaN"
| "fdiv x NaN = NaN"
| "fdiv (Fin x) (Fin y) =
     (if y \<noteq> 0 then Fin (x / y)
      else if x = 0 then NaN else if 0 < x then PInf else MInf)"
| "fdiv (Fin x) y = Fin 0"
| "fdiv x (Fin y) = (if 0 \<le> y then x else fneg x)"
| "fdiv x y = NaN"

text \<open>The comparisons \<^verbatim>\<open><=\<close>, \<^verbatim>\<open><\<close> and \<^verbatim>\<open>>\<close>: false as soon as an operand is not a number.\<close>

fun fle :: "float \<Rightarrow> float \<Rightarrow> bool" where
  "fle NaN y = False"
| "fle x NaN = False"
| "fle MInf y = True"
| "fle x PInf = True"
| "fle (Fin x) (Fin y) = (x \<le> y)"
| "fle x y = False"

fun flt :: "float \<Rightarrow> float \<Rightarrow> bool" where
  "flt NaN y = False"
| "flt x NaN = False"
| "flt PInf y = False"
| "flt x MInf = False"
| "flt (Fin x) (Fin y) = (x < y)"
| "flt x y = True"

definition fgt :: "float \<Rightarrow> float \<Rightarrow> bool" where
  "fgt x y = flt y x"

definition ofInt :: "int \<Rightarrow> float" where
  "ofInt i = Fin (of_int i)"

text \<open>
  Errors as values. An access outside an array names the array and the index; a failed
  \<^verbatim>\<open>assert\<close> names its condition.
\<close>

datatype error = OutOfBounds string int | AssertionFailed string

definition bindE :: "error + 'a \<Rightarrow> ('a \<Rightarrow> error + 'b) \<Rightarrow> error + 'b" where
  "bindE m f = (case m of Inl e \<Rightarrow> Inl e | Inr x \<Rightarrow> f x)"

fun mapE :: "('a \<Rightarrow> error + 'b) \<Rightarrow> 'a list \<Rightarrow> error + 'b list" where
  "mapE f [] = Inr []"
| "mapE f (x # xs) =
     (case f x of Inl e \<Rightarrow> Inl e
      | Inr y \<Rightarrow> (case mapE f xs of Inl e \<Rightarrow> Inl e | Inr ys \<Rightarrow> Inr (y # ys)))"

definition rd :: "string \<Rightarrow> 'a list \<Rightarrow> int \<Rightarrow> error + 'a" where
  "rd nm xs i =
     (if 0 \<le> i \<and> i < int (length xs) then Inr (xs ! nat i) else Inl (OutOfBounds nm i))"

definition wr :: "string \<Rightarrow> 'a list \<Rightarrow> int \<Rightarrow> 'a \<Rightarrow> error + 'a list" where
  "wr nm xs i x =
     (if 0 \<le> i \<and> i < int (length xs) then Inr (xs[nat i := x]) else Inl (OutOfBounds nm i))"

section \<open>The 1D generalized distance transform\<close>

definition square :: "int \<Rightarrow> int" where
  "square x = x * x"

text \<open>
  The intersection of the parabola rooted at \<open>q\<close> with the one rooted at \<open>v[k]\<close>
  (the right-hand side of both assignments to \<^verbatim>\<open>s\<close>).
\<close>

definition intersection :: "float list \<Rightarrow> int list \<Rightarrow> int \<Rightarrow> int \<Rightarrow> float \<Rightarrow> float \<Rightarrow> error + float" where
  "intersection src v k q a b =
     bindE (rd ''src'' src q) (\<lambda>sq.
     bindE (rd ''v'' v k) (\<lambda>vk.
     bindE (rd ''src'' src vk) (\<lambda>sv.
       Inr (fdiv (fadd (fsub (fsub sq sv) (fmul b (ofInt (q - vk))))
                       (fmul a (ofInt (square q - square vk))))
                 (fmul (fmul (ofInt 2) a) (ofInt (q - vk)))))))"

text \<open>The loop \<^verbatim>\<open>while (s <= z[k]) { k--; s = ...; }\<close>; it returns the final \<open>k\<close> and \<open>s\<close>.\<close>

function popLoop ::
  "float list \<Rightarrow> int list \<Rightarrow> float list \<Rightarrow> int \<Rightarrow> int \<Rightarrow> float \<Rightarrow> float \<Rightarrow> float \<Rightarrow> error + (int \<times> float)" where
  "popLoop src v z k q a b s =
     (if 0 \<le> k \<and> k < int (length z) then
        (if fle s (z ! nat k) then
           (case intersection src v (k - 1) q a b of
              Inl e \<Rightarrow> Inl e
            | Inr s' \<Rightarrow> popLoop src v z (k - 1) q a b s')
         else Inr (k, s))
      else Inl (OutOfBounds ''z'' k))"
  by pat_completeness auto
termination
  by (relation "measure (\<lambda>(src, v, z, k, q, a, b, s). nat (k + 1))") auto

text \<open>One iteration of the first loop, for candidate \<open>q\<close>, on the state \<open>(v, z, k)\<close>.\<close>

definition envelopeStep ::
  "float list \<Rightarrow> float \<Rightarrow> float \<Rightarrow> int list \<times> float list \<times> int \<Rightarrow> int \<Rightarrow> error + (int list \<times> float list \<times> int)" where
  "envelopeStep src a b st q =
     (case st of (v, z, k) \<Rightarrow>
        bindE (intersection src v k q a b) (\<lambda>s.
        bindE (popLoop src v z k q a b s) (\<lambda>(k', s').
        bindE (wr ''v'' v (k' + 1) q) (\<lambda>v'.
        bindE (wr ''z'' z (k' + 1) s') (\<lambda>z'.
        bindE (wr ''z'' z' (k' + 2) PInf) (\<lambda>z''.
          Inr (v', z'', k' + 1)))))))"

fun envelopeLoop ::
  "float list \<Rightarrow> float \<Rightarrow> float \<Rightarrow> int list \<times> float list \<times> int \<Rightarrow> int list \<Rightarrow> error + (int list \<times> float list \<times> int)" where
  "envelopeLoop src a b st [] = Inr st"
| "envelopeLoop src a b st (q # qs) =
     (case envelopeStep src a b st q of
        Inl e \<Rightarrow> Inl e
      | Inr st' \<Rightarrow> envelopeLoop src a b st' qs)"

text \<open>The loop \<^verbatim>\<open>while (z[k+1] < q) k++;\<close> of the second pass.\<close>

function advance :: "float list \<Rightarrow> int \<Rightarrow> int \<Rightarrow> error + int" where
  "advance z k q =
     (if 0 \<le> k + 1 \<and> k + 1 < int (length z) then
        (if flt (z ! nat (k + 1)) (ofInt q) then advance z (k + 1) q else Inr k)
      else Inl (OutOfBounds ''z'' (k + 1)))"
  by pat_completeness auto
termination
  by (relation "measure (\<lambda>(z, k, q). length z - nat (k + 1))") auto

text \<open>The second loop, on the cursor \<open>k\<close> and the output written so far.\<close>

fun fillLoop ::
  "float list \<Rightarrow> float \<Rightarrow> float \<Rightarrow> int list \<Rightarrow> float list \<Rightarrow> int \<Rightarrow> int list \<Rightarrow> error + (float list \<times> int list)" where
  "fillLoop src a b v z k [] = Inr ([], [])"
| "fillLoop src a b v z k (q # qs) =
     bindE (advance z k q) (\<lambda>k'.
     bindE (rd ''v'' v k') (\<lambda>vk.
     bindE (rd ''src'' src vk) (\<lambda>sv.
     bindE (fillLoop src a b v z k' qs) (\<lambda>(dst, ptr).
       Inr (fadd (fadd (fmul a (ofInt (square (q - vk)))) (fmul b (ofInt (q - vk)))) sv # dst,
            vk # ptr)))))"

text \<open>
  \<^verbatim>\<open>distanceTransform1D(src, dst, ptr, n, a, b)\<close>: \<open>src\<close> is the row the pointer addresses,
  \<open>v\<close> and \<open>z\<close> are the arrays of \<open>n\<close> and \<open>n + 1\<close> cells the function allocates, and the
  result is the pair of rows written through \<^verbatim>\<open>dst\<close> and \<^verbatim>\<open>ptr\<close>.
\<close>

definition distanceTransform1D ::
  "float list \<Rightarrow> nat \<Rightarrow> float \<Rightarrow> float \<Rightarrow> error + (float list \<times> int list)" where
  "distanceTransform1D src n a b =
     bindE (wr ''v'' (replicate n 0) 0 0) (\<lambda>v0.
     bindE (wr ''z'' (replicate (n + 1) (Fin 0)) 0 PInf) (\<lambda>z0.
     bindE (wr ''z'' z0 1 MInf) (\<lambda>z1.
     bindE (envelopeLoop src a b (v0, z1, 0) (map int [1..<n])) (\<lambda>(v, z, k).
       fillLoop src a b v z 0 (map int [0..<n])))))"

section \<open>Matrices\<close>

text \<open>
  A \<^verbatim>\<open>cv::Mat\<close> with one channel: its extent, whether its rows are stored without gaps,
  and its cells in row-major order. \<^verbatim>\<open>A.ptr(m)[n]\<close> is cell \<open>m * cols A + n\<close>.
\<close>

record 'a Mat =
  rows :: nat
  cols :: nat
  isContinuous :: bool
  cells :: "'a list"

definition mkMat :: "nat \<Rightarrow> nat \<Rightarrow> 'a list \<Rightarrow> 'a Mat" where
  "mkMat r c xs = \<lparr>rows = r, cols = c, isContinuous = True, cells = xs\<rparr>"

definition msize :: "'a Mat \<Rightarrow> nat \<times> nat" where
  "msize A = (cols A, rows A)"

definition ptrAt :: "string \<Rightarrow> 'a Mat \<Rightarrow> nat \<Rightarrow> nat \<Rightarrow> error + 'a" where
  "ptrAt nm A m n = rd nm (cells A) (int (m * cols A + n))"

definition rowOf :: "'a Mat \<Rightarrow> nat \<Rightarrow> 'a list" where
  "rowOf A m = take (cols A) (drop (m * cols A) (cells A))"

text \<open>
  \<^verbatim>\<open>cv::transpose\<close>, \<^verbatim>\<open>cv::minMaxLoc\<close> and the sum of a matrix and a scalar are OpenCV's;
  they are written here as OpenCV documents them (\<^verbatim>\<open>minMaxLoc\<close> of a matrix without
  cells reports 0 for both extremes).
\<close>

definition transposeMat :: "'a Mat \<Rightarrow> 'a Mat" where
  "transposeMat A =
     mkMat (cols A) (rows A)
       (map (\<lambda>i. cells A ! ((i mod rows A) * cols A + i div rows A)) [0..<cols A * rows A])"

definition minMaxLoc :: "int Mat \<Rightarrow> int \<times> int" where
  "minMaxLoc idx = (case cells idx of [] \<Rightarrow> (0, 0) | x # xs \<Rightarrow> (fold min xs x, fold max xs x))"

definition addScalar :: "float Mat \<Rightarrow> float \<Rightarrow> float Mat" where
  "addScalar A c = mkMat (rows A) (cols A) (map (\<lambda>x. fadd x c) (cells A))"

text \<open>The loop bounds both reductions use: one long row when the first plane is continuous.\<close>

definition loopExtent :: "'a Mat \<Rightarrow> nat \<times> nat" where
  "loopExtent A = (if isContinuous A then (1, rows A * cols A) else (rows A, cols A))"

section \<open>Reduction primitives\<close>

definition reducePickIndex :: "'a Mat list \<Rightarrow> int Mat \<Rightarrow> error + 'a Mat" where
  "reducePickIndex inp idx =
     (let K = length inp; (minv, maxv) = minMaxLoc idx in
      if \<not> (0 \<le> minv \<and> maxv < int K) then Inl (AssertionFailed ''minv >= 0 && maxv < K'')
      else if \<not> list_all (\<lambda>A. msize A = msize idx) inp
        then Inl (AssertionFailed ''in[k].size() == idx.size()'')
      else
        bindE (rd ''in'' inp 0) (\<lambda>in0.
          let (M, N) = loopExtent in0 in
          bindE (mapE (\<lambda>m. mapE (\<lambda>n.
                   bindE (ptrAt ''idx'' idx m n) (\<lambda>i.
                   bindE (rd ''in_ptr'' inp i) (\<lambda>A. ptrAt ''in[k]'' A m n))) [0..<N]) [0..<M])
            (\<lambda>out. Inr (mkMat (rows in0) (cols in0) (concat out)))))"

text \<open>
  The innermost loop of \<^verbatim>\<open>reduceMax\<close> for the cell at offset \<open>n\<close>: \<open>xs\<close> are the values
  \<^verbatim>\<open>in_ptr[0][n]\<close>, ..., \<^verbatim>\<open>in_ptr[K-1][n]\<close>, the state is \<^verbatim>\<open>(i, v)\<close>.
\<close>

definition cellMax :: "float list \<Rightarrow> int \<Rightarrow> int \<times> float" where
  "cellMax xs n = fold (\<lambda>x (i, v). if fgt x v then (n, x) else (i, v)) xs (0, MInf)"

definition reduceMax :: "float Mat list \<Rightarrow> error + (float Mat \<times> int Mat)" where
  "reduceMax inp =
     (let K = length inp in
      if \<not> 1 < K then Inl (AssertionFailed ''K > 1'')
      else if \<not> list_all (\<lambda>k. msize (inp ! k) = msize (inp ! (k - 1))) [1..<K]
        then Inl (AssertionFailed ''in[k].size() == in[k-1].size()'')
      else
        let in0 = inp ! 0; (M, N) = loopExtent in0 in
        bindE (mapE (\<lambda>m. mapE (\<lambda>n.
                 bindE (mapE (\<lambda>A. ptrAt ''in[k]'' A m n) inp) (\<lambda>xs. Inr (cellMax xs (int n))))
                 [0..<N]) [0..<M])
          (\<lambda>out. Inr (mkMat (rows in0) (cols in0) (map snd (concat out)),
                      mkMat (rows in0) (cols in0) (map fst (concat out)))))"

section \<open>The 2D generalized distance transform\<close>

text \<open>
  The body of \<^verbatim>\<open>distanceTransform\<close>, with the 1D routine it calls as the parameter \<open>dt1\<close>.
\<close>

definition distanceTransformWith ::
  "(float list \<Rightarrow> nat \<Rightarrow> float \<Rightarrow> float \<Rightarrow> error + (float list \<times> int list)) \<Rightarrow>
   float Mat \<Rightarrow> float list \<Rightarrow> error + (float Mat \<times> int Mat \<times> int Mat)" where
  "distanceTransformWith dt1 score_in wv =
     (let M = rows score_in; N = cols score_in in
      bindE (rd ''w'' wv 0) (\<lambda>ax.
      bindE (rd ''w'' wv 1) (\<lambda>bx.
      bindE (rd ''w'' wv 2) (\<lambda>ay.
      bindE (rd ''w'' wv 3) (\<lambda>by.
      bindE (mapE (\<lambda>m. dt1 (rowOf score_in m) N (fneg ax) (fneg bx)) [0..<M]) (\<lambda>rs.
        let score_tmp = transposeMat (mkMat M N (concat (map fst rs)));
            Ix = mkMat M N (concat (map snd rs)) in
        bindE (mapE (\<lambda>n. dt1 (rowOf score_tmp n) M (fneg ay) (fneg by)) [0..<N]) (\<lambda>cs.
          let score_out = transposeMat (mkMat N M (concat (map fst cs)));
              Iy = transposeMat (mkMat N M (concat (map snd cs))) in
          bindE (mapE (\<lambda>m. mapE (\<lambda>n.
                   bindE (ptrAt ''Ix'' Ix m n) (\<lambda>j. rd ''Iy'' (cells Iy) (int (m * cols Iy) + j)))
                   [0..<N]) [0..<M])
            (\<lambda>Iy'. Inr (score_out, Ix, mkMat M N (concat Iy'))))))))))"

definition distanceTransform ::
  "float Mat \<Rightarrow> float list \<Rightarrow> error + (float Mat \<times> int Mat \<times> int Mat)" where
  "distanceTransform = distanceTransformWith distanceTransform1D"

section \<open>The part tree\<close>

text \<open>
  Modelled from the spec: the class \<^verbatim>\<open>Part\<close> is declared in a header that is not among
  the sources. A part has its position index \<open>pos\<close>, its ordered children, its number of
  mixtures, the quadratic deformation weights \<open>(ax, bx, ay, by)\<close> of each mixture
  (\<^verbatim>\<open>w()\<close> in the code), the pairwise bias vector of each mixture, and its anchor offset
  \<open>(x, y)\<close>. A leaf has no children; \<open>ndescendants\<close> is the number of parts in the subtree
  minus one.
\<close>

datatype Part =
  Part (pos: nat) (children: "Part list") (nmixtures: nat)
       (weights: "float list list") (bias: "float list list") (anchor: "int \<times> int")

definition isLeaf :: "Part \<Rightarrow> bool" where
  "isLeaf p = (children p = [])"

fun ndescendants :: "Part \<Rightarrow> nat" where
  "ndescendants (Part p cs k wv bv an) = sum_list (map (\<lambda>c. Suc (ndescendants c)) cs)"

section \<open>Message passing\<close>

text \<open>
  Modelled from the spec: the assignment between two sub-matrix views
  \<^verbatim>\<open>dst(Range, Range) = src(Range, Range)\<close> is OpenCV's. It is read as the region copy
  that the specification describes (cells of the region take the source's values, all
  other cells keep theirs), and a range outside the matrix fails OpenCV's range
  assertion. The first range selects rows, the second columns.
\<close>

definition validRange :: "int \<times> int \<Rightarrow> nat \<Rightarrow> bool" where
  "validRange r d = (0 \<le> fst r \<and> fst r \<le> snd r \<and> snd r \<le> int d)"

definition roiAssign ::
  "'a Mat \<Rightarrow> int \<times> int \<Rightarrow> int \<times> int \<Rightarrow> 'a Mat \<Rightarrow> int \<times> int \<Rightarrow> int \<times> int \<Rightarrow> error + 'a Mat" where
  "roiAssign dst dr dc src sr sc =
     (if \<not> (validRange dr (rows dst) \<and> validRange dc (cols dst) \<and>
             validRange sr (rows src) \<and> validRange sc (cols src))
      then Inl (AssertionFailed ''Range'')
      else Inr (dst\<lparr>cells :=
        map (\<lambda>i. let r = int (i div cols dst); c = int (i mod cols dst) in
               if fst dr \<le> r \<and> r < snd dr \<and> fst dc \<le> c \<and> c < snd dc
               then cells src ! (nat (r - fst dr + fst sr) * cols src + nat (c - fst dc + fst sc))
               else cells dst ! i)
          [0..<rows dst * cols dst]\<rparr>))"

text \<open>
  The shift of one transformed plane by the anchor, with the value \<open>fill\<close> the fresh plane
  starts from; \<open>X\<close> and \<open>Y\<close> are the columns and rows of \<^verbatim>\<open>score_in\<close>.
\<close>

definition shiftByAnchor :: "int \<times> int \<Rightarrow> nat \<Rightarrow> nat \<Rightarrow> 'a \<Rightarrow> 'a Mat \<Rightarrow> error + 'a Mat" where
  "shiftByAnchor an Xc Yr fill plane =
     (let X = int Xc; Y = int Yr;
          xmin = max (fst an) 0;
          ymin = max (snd an) 0;
          xmax = min (fst an + X) X;
          ymax = min (snd an + Y) X;
          xoff = max (- fst an) 0;
          yoff = max (- snd an) 0
      in roiAssign (mkMat (rows plane) (cols plane) (replicate (rows plane * cols plane) fill))
           (xoff, xoff + xmax - xmin) (yoff, yoff + ymax - ymin)
           plane (xmin, xmax) (ymin, ymax))"

text \<open>The body of the first loop over the mixtures: transform, then shift.\<close>

definition transformMixture ::
  "Part \<Rightarrow> float Mat list \<Rightarrow> nat \<Rightarrow> nat \<Rightarrow> error + (float Mat \<times> int Mat \<times> int Mat)" where
  "transformMixture self scores Ns m =
     bindE (rd ''scores'' scores (int (Ns + m))) (\<lambda>score_in.
     bindE (rd ''w'' (weights self) (int m)) (\<lambda>wm.
     bindE (distanceTransform score_in wm) (\<lambda>(score_dt, Ix_dt, Iy_dt).
     bindE (shiftByAnchor (anchor self) (cols score_in) (rows score_in) MInf score_dt) (\<lambda>score.
     bindE (shiftByAnchor (anchor self) (cols score_in) (rows score_in) 0 Ix_dt) (\<lambda>Ixm.
     bindE (shiftByAnchor (anchor self) (cols score_in) (rows score_in) 0 Iy_dt) (\<lambda>Iym.
       Inr (score, Ixm, Iym)))))))"

text \<open>
  The body of the second loop, for parent mixture \<open>m\<close>: it returns the scores with the
  parent's slot overwritten, and the planes pushed onto \<^verbatim>\<open>Ix\<close>, \<^verbatim>\<open>Iy\<close> and \<^verbatim>\<open>Ik\<close>.
\<close>

definition mixStep ::
  "Part \<Rightarrow> int Mat list \<Rightarrow> int Mat list \<Rightarrow> nat \<Rightarrow> float Mat list \<Rightarrow> nat \<Rightarrow>
   error + (float Mat list \<times> (int Mat \<times> int Mat \<times> int Mat))" where
  "mixStep self Ixi Iyi Np scores m =
     bindE (rd ''bias'' (bias self) (int m)) (\<lambda>biasm.
     bindE (mapE (\<lambda>mm.
              bindE (rd ''scores'' scores (int mm)) (\<lambda>S.
              bindE (rd ''bias[m]'' biasm (int mm)) (\<lambda>c. Inr (addScalar S c))))
              [0..<nmixtures self]) (\<lambda>weighted.
     bindE (reduceMax weighted) (\<lambda>(maxv, maxi).
     bindE (reducePickIndex Ixi maxi) (\<lambda>Ixm.
     bindE (reducePickIndex Iyi maxi) (\<lambda>Iym.
     bindE (wr ''scores'' scores (int (Np + m)) maxv) (\<lambda>scores'.
       Inr (scores', (Ixm, Iym, maxi))))))))"

fun mixLoop ::
  "Part \<Rightarrow> int Mat list \<Rightarrow> int Mat list \<Rightarrow> nat \<Rightarrow> float Mat list \<Rightarrow> nat list \<Rightarrow>
   error + (float Mat list \<times> (int Mat \<times> int Mat \<times> int Mat) list)" where
  "mixLoop self Ixi Iyi Np scores [] = Inr (scores, [])"
| "mixLoop self Ixi Iyi Np scores (m # ms) =
     bindE (mixStep self Ixi Iyi Np scores m) (\<lambda>(scores', r).
     bindE (mixLoop self Ixi Iyi Np scores' ms) (\<lambda>(scores'', rs). Inr (scores'', r # rs)))"

text \<open>
  What \<^verbatim>\<open>minRecursive\<close> does at one node once its children are done. Besides the scores
  it returns the planes collected in the locals \<^verbatim>\<open>scoresi\<close> and \<^verbatim>\<open>(Ix, Iy, Ik)\<close>.
\<close>

definition nodeMessage ::
  "Part \<Rightarrow> Part \<Rightarrow> float Mat list \<Rightarrow> nat \<Rightarrow> nat \<Rightarrow>
   error + (float Mat list \<times> float Mat list \<times> (int Mat \<times> int Mat \<times> int Mat) list)" where
  "nodeMessage self parent scores nparts scale =
     (let Ns = nparts * nmixtures self * scale + nmixtures self * pos self;
          Np = nparts * nmixtures self * scale + nmixtures self * pos parent in
      bindE (mapE (transformMixture self scores Ns) [0..<nmixtures self]) (\<lambda>ts.
        let scoresi = map fst ts;
            Ixi = map (\<lambda>t. fst (snd t)) ts;
            Iyi = map (\<lambda>t. snd (snd t)) ts in
        bindE (mixLoop self Ixi Iyi Np scores [0..<nmixtures self]) (\<lambda>(scores', sel).
          Inr (scores', scoresi, sel))))"

fun minRecursive :: "Part \<Rightarrow> Part \<Rightarrow> float Mat list \<Rightarrow> nat \<Rightarrow> nat \<Rightarrow> error + float Mat list"
  and minChildren :: "Part list \<Rightarrow> Part \<Rightarrow> float Mat list \<Rightarrow> nat \<Rightarrow> nat \<Rightarrow> error + float Mat list" where
  "minRecursive (Part p cs k wv bv an) parent scores nparts scale =
     (case (if \<not> isLeaf (Part p cs k wv bv an)
            then minChildren cs (Part p cs k wv bv an) scores nparts scale
            else Inr scores) of
        Inl e \<Rightarrow> Inl e
      | Inr scores1 \<Rightarrow>
          (case nodeMessage (Part p cs k wv bv an) parent scores1 nparts scale of
             Inl e \<Rightarrow> Inl e
           | Inr r \<Rightarrow> Inr (fst r)))"
| "minChildren [] self scores nparts scale = Inr scores"
| "minChildren (c # cs) self scores nparts scale =
     (case minRecursive c self scores nparts scale of
        Inl e \<Rightarrow> Inl e
      | Inr scores1 \<Rightarrow> minChildren cs self scores1 nparts scale)"

section \<open>The driver\<close>

definition minDP :: "Part \<Rightarrow> float Mat list \<Rightarrow> nat \<Rightarrow> error + float Mat list" where
  "minDP rootpart responses nscales =
     (if \<not> (length responses = ndescendants rootpart + 1 * nmixtures rootpart * nscales)
      then Inl (AssertionFailed
        ''responses.size() == (rootpart.ndescendants()+1 * rootpart.nmixtures() * nscales)'')
      else
        let scale = 0;
            nparts = ndescendants rootpart + 1;
            nmix = nmixtures rootpart in
        bindE (rd ''responses'' responses (int (nparts * nmix * scale))) (\<lambda>R. Inr responses))"

text \<open>
  Modelled from the spec: \<^verbatim>\<open>Candidate\<close> is declared in a header that is not among the
  sources: for each part its mixture and pixel location, and the total score.
\<close>

datatype Candidate = Candidate "(nat \<times> int \<times> int) list" float

definition argmin :: "Candidate list" where
  "argmin = []"

text \<open>
  The detector's members: the feature provider (\<^verbatim>\<open>features_\<close>, an external collaborator,
  taken as given functions) and the root of the part tree (\<^verbatim>\<open>root_\<close>).
\<close>

record Features =
  pyramid :: "float Mat \<Rightarrow> float Mat list"
  pdf :: "float Mat list \<Rightarrow> float Mat list \<Rightarrow> float Mat list"
  nscales :: nat

record PartsBasedDetector =
  features :: Features
  rootPart :: Part

definition detect :: "PartsBasedDetector \<Rightarrow> float Mat \<Rightarrow> error + Candidate list" where
  "detect D im =
     (let pyr = pyramid (features D) im;
          filters = [];
          resp = pdf (features D) pyr filters in
      bindE (minDP (rootPart D) resp (nscales (features D))) (\<lambda>resp'.
        let candidates = argmin in Inr []))"

section \<open>The specification's reading, and inputs for the evaluations\<close>

text \<open>A value is finite when it is a number, neither an infinity nor not-a-number.\<close>

fun isFin :: "float \<Rightarrow> bool" where
  "isFin (Fin x) = True"
| "isFin x = False"

text \<open>
  The specification's wording of the 1D transform, not the code: for each \<open>q\<close>,
  \<open>dst[q]\<close> is the minimum over \<open>p\<close> of \<open>a (q - p)\<^sup>2 + b (q - p) + src[p]\<close> and \<open>arg[q]\<close>
  is the (first) minimising \<open>p\<close>, found by trying every \<open>p\<close>.
\<close>

definition quadCost :: "float \<Rightarrow> float \<Rightarrow> int \<Rightarrow> float" where
  "quadCost a b d = fadd (fmul a (ofInt (square d))) (fmul b (ofInt d))"

definition specCost1D :: "float list \<Rightarrow> float \<Rightarrow> float \<Rightarrow> int \<Rightarrow> int \<Rightarrow> float" where
  "specCost1D src a b q p = fadd (quadCost a b (q - p)) (src ! nat p)"

definition specArg1D :: "float list \<Rightarrow> nat \<Rightarrow> float \<Rightarrow> float \<Rightarrow> int \<Rightarrow> int" where
  "specArg1D src n a b q =
     fold (\<lambda>p r. if flt (specCost1D src a b q p) (specCost1D src a b q r) then p else r)
       (map int [0..<n]) 0"

definition specTransform1D ::
  "float list \<Rightarrow> nat \<Rightarrow> float \<Rightarrow> float \<Rightarrow> error + (float list \<times> int list)" where
  "specTransform1D src n a b =
     Inr (map (\<lambda>q. specCost1D src a b q (specArg1D src n a b q)) (map int [0..<n]),
          map (\<lambda>q. specArg1D src n a b q) (map int [0..<n]))"

text \<open>
  The specification's 2D quadratic cost between a cell \<open>(i, j)\<close> and a source cell
  \<open>(r, c)\<close>, plus the input score at the source, with the coefficients negated as the
  caller of the 1D transform negates them.
\<close>

definition directCost :: "float Mat \<Rightarrow> float list \<Rightarrow> nat \<times> nat \<Rightarrow> int \<times> int \<Rightarrow> float" where
  "directCost score_in wv cell source =
     fadd (fadd (quadCost (fneg (wv ! 0)) (fneg (wv ! 1)) (int (snd cell) - snd source))
                (quadCost (fneg (wv ! 2)) (fneg (wv ! 3)) (int (fst cell) - fst source)))
          (cells score_in ! (nat (fst source) * cols score_in + nat (snd source)))"

text \<open>A 2 x 2 plane whose best cell is \<open>(0, 1)\<close>, and weights giving \<open>a = 1\<close>, \<open>b = 0\<close>.\<close>

definition offPeak :: "float Mat" where
  "offPeak = mkMat 2 2 [Fin 10, Fin 0, Fin 10, Fin 10]"

definition unitWeights :: "float list" where
  "unitWeights = [Fin (- 1), Fin 0, Fin (- 1), Fin 0]"

text \<open>Stacks of two 1 x 3 and two 1 x 2 planes.\<close>

definition risingPlane :: "float Mat" where
  "risingPlane = mkMat 1 3 [Fin 1, Fin 2, Fin 3]"

definition flatPlane :: "float Mat" where
  "flatPlane = mkMat 1 3 [Fin 0, Fin 0, Fin 0]"

definition crossA :: "float Mat" where
  "crossA = mkMat 1 2 [Fin 1, Fin 5]"

definition crossB :: "float Mat" where
  "crossB = mkMat 1 2 [Fin 3, Fin 2]"

text \<open>
  The two-node scenario: 5 x 5 planes, one mixture, zero bias, unit weights, the leaf's
  anchor \<open>(1, 0)\<close>, the leaf's response 10 at cell \<open>(2, 3)\<close> and 0 elsewhere.
\<close>

definition scenarioPeak :: "float Mat" where
  "scenarioPeak = mkMat 5 5 (map (\<lambda>i. if i = 13 then Fin 10 else Fin 0) [0..<25])"

definition scenarioZero :: "float Mat" where
  "scenarioZero = mkMat 5 5 (replicate 25 (Fin 0))"

definition scenarioLeaf :: Part where
  "scenarioLeaf = Part 1 [] 1 [[Fin 1, Fin 1, Fin 1, Fin 1]] [[Fin 0]] (1, 0)"

definition scenarioRoot :: Part where
  "scenarioRoot = Part 0 [scenarioLeaf] 1 [[Fin 1, Fin 1, Fin 1, Fin 1]] [[Fin 0]] (0, 0)"

text \<open>
  A two-node tree with two mixtures per part and 2 x 2 planes. The leaf's own planes hold
  \<open>-\<infinity>\<close> everywhere; the root's planes \<open>rawA\<close> and \<open>rawB\<close> hold one number each.
\<close>

definition minusInf :: "float Mat" where
  "minusInf = mkMat 2 2 [MInf, MInf, MInf, MInf]"

definition rawA :: "float Mat" where
  "rawA = mkMat 2 2 [Fin 1, MInf, MInf, MInf]"

definition rawB :: "float Mat" where
  "rawB = mkMat 2 2 [MInf, Fin 5, MInf, MInf]"

definition merged :: "float Mat" where
  "merged = mkMat 2 2 [Fin 1, Fin 5, MInf, MInf]"

definition twoMixLeaf :: Part where
  "twoMixLeaf = Part 1 [] 2 [[Fin 1, Fin 1, Fin 1, Fin 1], [Fin 1, Fin 1, Fin 1, Fin 1]]
                  [[Fin 0, Fin 0], [Fin 0, Fin 0]] (0, 0)"

definition twoMixRoot :: Part where
  "twoMixRoot = Part 0 [twoMixLeaf] 2 [[Fin 1, Fin 1, Fin 1, Fin 1], [Fin 1, Fin 1, Fin 1, Fin 1]]
                  [[Fin 0, Fin 0], [Fin 0, Fin 0]] (0, 0)"

text \<open>
  A chain of three parts, root, middle part and leaf, with four mixtures each, unit
  weights and zero bias; the middle part has the anchor \<open>(1, 0)\<close>. All twelve 2 x 2
  response planes hold \<open>+\<infinity>\<close> everywhere. \<open>halfInf\<close> is such a plane shifted by the
  anchor \<open>(1, 0)\<close>.
\<close>

definition plusInf :: "float Mat" where
  "plusInf = mkMat 2 2 [PInf, PInf, PInf, PInf]"

definition halfInf :: "float Mat" where
  "halfInf = mkMat 2 2 [PInf, PInf, MInf, MInf]"

definition zeroIdx :: "int Mat" where
  "zeroIdx = mkMat 2 2 [0, 0, 0, 0]"

definition offsetIdx :: "int Mat" where
  "offsetIdx = mkMat 2 2 [0, 1, 2, 3]"

definition plusPlanes :: "float Mat list" where
  "plusPlanes = replicate 12 plusInf"

definition fourMixLeaf :: Part where
  "fourMixLeaf = Part 2 [] 4 (replicate 4 [Fin 1, Fin 1, Fin 1, Fin 1])
                   (replicate 4 [Fin 0, Fin 0, Fin 0, Fin 0]) (0, 0)"

definition fourMixMid :: Part where
  "fourMixMid = Part 1 [fourMixLeaf] 4 (replicate 4 [Fin 1, Fin 1, Fin 1, Fin 1])
                  (replicate 4 [Fin 0, Fin 0, Fin 0, Fin 0]) (1, 0)"

definition fourMixRoot :: Part where
  "fourMixRoot = Part 0 [fourMixMid] 4 (replicate 4 [Fin 1, Fin 1, Fin 1, Fin 1])
                   (replicate 4 [Fin 0, Fin 0, Fin 0, Fin 0]) (0, 0)"

text \<open>Two feature providers: one answers with no response plane, one with two.\<close>

definition emptyFeatures :: Features where
  "emptyFeatures = \<lparr>pyramid = (\<lambda>im. [im]), pdf = (\<lambda>pyr filters. []), nscales = 1\<rparr>"

definition twoPlaneFeatures :: Features where
  "twoPlaneFeatures =
     \<lparr>pyramid = (\<lambda>im. [im]), pdf = (\<lambda>pyr filters. [scenarioZero, scenarioPeak]), nscales = 1\<rparr>"

section \<open>Properties of the 1D transform\<close>

lemma isFin_nth:
  assumes "list_all isFin xs" "i < length xs"
  obtains r where "xs ! i = Fin r"
proof -
  from assms have "isFin (xs ! i)" by (simp add: list_all_length)
  then show thesis using that by (cases "xs ! i") auto
qed

text \<open>On finite data and with \<open>a \<noteq> 0\<close> the intersection is a finite number.\<close>

lemma intersection_finite:
  assumes "list_all isFin src" "0 \<le> q" "q < int (length src)" "0 \<le> k" "k < int (length v)"
    "0 \<le> v ! nat k" "v ! nat k < int (length src)" "a' \<noteq> 0" "v ! nat k \<noteq> q"
  shows "\<exists>s. intersection src v k q (Fin a') (Fin b') = Inr (Fin s)"
proof -
  from assms obtain sq where sq: "src ! nat q = Fin sq"
    by (metis isFin_nth nat_less_iff)
  from assms obtain sv where sv: "src ! nat (v ! nat k) = Fin sv"
    by (metis isFin_nth nat_less_iff)
  show ?thesis using assms sq sv
    by (simp add: intersection_def rd_def bindE_def fsub_def ofInt_def)
qed

text \<open>
  With \<open>z[0] = +\<infinity>\<close> a finite \<open>s\<close> always satisfies \<open>s \<le> z[0]\<close>: the loop pops the last
  entry of the stack and then reads \<open>v[-1]\<close>.
\<close>

lemma popLoop_bottom:
  assumes "intersection src v 0 q (Fin a') (Fin b') = Inr (Fin s)" "z \<noteq> []" "z ! 0 = PInf"
  shows "popLoop src v z 0 q (Fin a') (Fin b') (Fin s) = Inl (OutOfBounds ''v'' (- 1))"
proof -
  have "intersection src v (- 1) q (Fin a') (Fin b') = Inl (OutOfBounds ''v'' (- 1))"
    using assms(1) by (auto simp: intersection_def rd_def bindE_def split: if_splits sum.splits)
  then show ?thesis using assms(2,3)
    by (subst popLoop.simps) simp
qed

lemma envelopeStep_bottom:
  assumes "list_all isFin src" "2 \<le> length src" "v \<noteq> []" "v ! 0 = 0" "z \<noteq> []" "z ! 0 = PInf"
    "a' \<noteq> 0"
  shows "envelopeStep src (Fin a') (Fin b') (v, z, 0) 1 = Inl (OutOfBounds ''v'' (- 1))"
proof -
  from assms(2) have "src \<noteq> []" by auto
  with assms obtain s where s: "intersection src v 0 1 (Fin a') (Fin b') = Inr (Fin s)"
    using intersection_finite [of src 1 0 v a' b'] by auto
  have "popLoop src v z 0 1 (Fin a') (Fin b') (Fin s) = Inl (OutOfBounds ''v'' (- 1))"
    using s assms(5,6) by (rule popLoop_bottom)
  with s show ?thesis by (simp add: envelopeStep_def bindE_def)
qed

lemma dt1D_pops_below_zero:
  assumes "2 \<le> n" "length src = n" "list_all isFin src" "a' \<noteq> 0"
  shows "distanceTransform1D src n (Fin a') (Fin b') = Inl (OutOfBounds ''v'' (- 1))"
proof -
  define v where "v = (replicate n (0::int))[0 := 0]"
  define z0 where "z0 = (replicate (n + 1) (Fin 0))[0 := PInf]"
  define z where "z = z0[1 := MInf]"
  have wv: "wr ''v'' (replicate n 0) 0 0 = Inr v"
    using assms(1) by (simp add: wr_def v_def)
  have wz0: "wr ''z'' (replicate (n + 1) (Fin 0)) 0 PInf = Inr z0"
    by (simp add: wr_def z0_def)
  have wz: "wr ''z'' z0 1 MInf = Inr z"
    using assms(1) by (simp add: wr_def z0_def z_def)
  have "envelopeStep src (Fin a') (Fin b') (v, z, 0) 1 = Inl (OutOfBounds ''v'' (- 1))"
    using assms by (intro envelopeStep_bottom) (auto simp: v_def z_def z0_def)
  moreover have "map int [1..<n] = 1 # map int [2..<n]"
    using assms(1) by (simp add: upt_conv_Cons numeral_2_eq_2)
  ultimately have
    "envelopeLoop src (Fin a') (Fin b') (v, z, 0) (map int [1..<n]) = Inl (OutOfBounds ''v'' (- 1))"
    by simp
  then show ?thesis
    unfolding distanceTransform1D_def by (simp only: wv wz0 wz bindE_def sum.case)
qed

text \<open>
  With \<open>z[1] = -\<infinity>\<close> and a single cell, the second pass steps over the only breakpoint
  and reads \<open>z[2]\<close>, one cell past the \<open>n + 1 = 2\<close> cells of \<open>z\<close>.
\<close>

lemma dt1D_single_overruns:
  "distanceTransform1D src 1 a b = Inl (OutOfBounds ''z'' 2)"
  by (simp add: distanceTransform1D_def wr_def bindE_def advance.simps ofInt_def)

lemma dt1D_fails:
  assumes "1 \<le> n" "length src = n" "list_all isFin src" "a' \<noteq> 0"
  shows "distanceTransform1D src n (Fin a') (Fin b') =
         Inl (if n = 1 then OutOfBounds ''z'' 2 else OutOfBounds ''v'' (- 1))"
proof (cases "n = 1")
  case True
  then show ?thesis using dt1D_single_overruns [of src "Fin a'" "Fin b'"] by simp
next
  case False
  with assms(1) have "2 \<le> n" by simp
  with False show ?thesis using assms by (simp add: dt1D_pops_below_zero)
qed

text \<open>
  C1. The claim: for \<open>n \<ge> 1\<close> and \<open>a > 0\<close> the transform returns the true minimum \<open>dst\<close>
  and a minimising position \<open>arg\<close>. The code initialises \<open>z[0] = +\<infinity>\<close> and
  \<open>z[1] = -\<infinity>\<close>, the reverse of what the lower-envelope algorithm needs; on every finite
  input of length \<open>n \<ge> 1\<close> with \<open>a \<noteq> 0\<close> it returns no \<open>dst\<close> and no \<open>arg\<close> at all: for
  \<open>n = 1\<close> the second pass reads \<open>z[2]\<close>, for \<open>n \<ge> 2\<close> the first pass reads \<open>v[-1]\<close>.
\<close>

theorem distanceTransform1D_returns_no_minimum:
  assumes "1 \<le> n" "length src = n" "list_all isFin src" "a' \<noteq> 0"
  shows "distanceTransform1D src n (Fin a') (Fin b') =
         Inl (if n = 1 then OutOfBounds ''z'' 2 else OutOfBounds ''v'' (- 1))"
  using assms by (rule dt1D_fails)

theorem distanceTransform1D_returns_no_minimum_witness:
  "distanceTransform1D [Fin 5] 1 (Fin 1) (Fin 0) = Inl (OutOfBounds ''z'' 2)"
  using distanceTransform1D_returns_no_minimum [of 1 "[Fin 5]" 1 0] by simp

text \<open>
  C2. The claim: for \<open>n \<ge> 2\<close> and \<open>a > 0\<close> the pop loop never drives \<open>k\<close> below 0 before
  \<open>v[k]\<close> and \<open>z[k]\<close> are read. In the code, on every finite input of length \<open>n \<ge> 2\<close> with
  \<open>a \<noteq> 0\<close>, the very first candidate \<open>q = 1\<close> pops the stack to \<open>k = -1\<close> and the
  recomputation of \<open>s\<close> reads \<open>v[-1]\<close>: the out-of-bounds branch is reached.
\<close>

theorem distanceTransform1D_pop_reads_below_stack:
  assumes "2 \<le> length src" "list_all isFin src" "a' \<noteq> 0"
  shows "distanceTransform1D src (length src) (Fin a') (Fin b') = Inl (OutOfBounds ''v'' (- 1))"
  using assms by (simp add: dt1D_pops_below_zero)

theorem distanceTransform1D_pop_reads_below_stack_witness:
  "distanceTransform1D [Fin 0, Fin 0] 2 (Fin 1) (Fin 0) = Inl (OutOfBounds ''v'' (- 1))"
  using distanceTransform1D_pop_reads_below_stack [of "[Fin 0, Fin 0]" 1 0]
  by (simp add: numeral_2_eq_2)

section \<open>Properties of the 2D transform\<close>

lemmas eval_defs =
  bindE_def rd_def wr_def ofInt_def square_def fsub_def fgt_def upt_conv_Cons
  mkMat_def msize_def ptrAt_def rowOf_def transposeMat_def minMaxLoc_def addScalar_def
  loopExtent_def

text \<open>
  C3. The claim: for every M x N plane and coefficients in the valid regime the outputs
  \<open>scoreOut\<close>, \<open>Ix\<close>, \<open>Iy\<close> are mutually consistent. In the code the transform of the first
  row already fails (the defect of C1), so on every non-empty finite plane with
  \<open>ax \<noteq> 0\<close> the 2D transform returns no output at all.
\<close>

theorem distanceTransform_fails_on_finite_plane:
  assumes "1 \<le> rows A" "1 \<le> cols A" "length (cells A) = rows A * cols A"
    "list_all isFin (cells A)" "ax \<noteq> 0"
  shows "distanceTransform A [Fin ax, Fin bx, Fin ay, Fin by] =
         Inl (if cols A = 1 then OutOfBounds ''z'' 2 else OutOfBounds ''v'' (- 1))"
proof -
  have "cols A \<le> rows A * cols A" using assms(1) by simp
  then have len: "length (rowOf A 0) = cols A"
    using assms(3) by (simp add: rowOf_def)
  have fin: "list_all isFin (rowOf A 0)"
    using assms(4) by (auto simp: rowOf_def list_all_iff dest: in_set_takeD)
  have d: "distanceTransform1D (rowOf A 0) (cols A) (Fin (- ax)) (Fin (- bx)) =
           Inl (if cols A = 1 then OutOfBounds ''z'' 2 else OutOfBounds ''v'' (- 1))"
    using assms(2,5) len fin by (intro dt1D_fails) auto
  have up: "[0..<rows A] = 0 # [1..<rows A]"
    using assms(1) by (simp add: upt_conv_Cons)
  show ?thesis
    unfolding distanceTransform_def distanceTransformWith_def
    by (simp add: rd_def bindE_def up d Let_def del: upt_Suc)
qed

theorem distanceTransform_fails_on_finite_plane_witness:
  "distanceTransform scenarioPeak [Fin (- 1), Fin 0, Fin (- 1), Fin 0] =
     Inl (OutOfBounds ''v'' (- 1))"
  using distanceTransform_fails_on_finite_plane [of scenarioPeak "- 1" 0 "- 1" 0]
  by (simp add: scenarioPeak_def mkMat_def upt_conv_Cons)

text \<open>
  The composition \<open>Iy[m][n] := Iy[m][Ix[m][n]]\<close> on its own, with the 1D routine replaced
  by the specification's exact minimum. On \<open>offPeak\<close> the output at cell \<open>(1, 0)\<close> is 2
  (reached from the source \<open>(0, 1)\<close>), but the reported source is
  \<open>(Iy, Ix) = (0, 0)\<close>, whose direct cost is 11: the row transform runs first, so it is
  \<open>Ix\<close> that would have to be looked up through \<open>Iy\<close>.
\<close>

lemma composition_output:
  "distanceTransformWith specTransform1D offPeak unitWeights =
     Inr (mkMat 2 2 [Fin 1, Fin 0, Fin 2, Fin 1], mkMat 2 2 [1, 1, 0, 1], mkMat 2 2 [0, 0, 0, 0])"
  by (simp add: eval_defs specTransform1D_def specArg1D_def specCost1D_def quadCost_def
      distanceTransformWith_def offPeak_def unitWeights_def)

lemma composition_direct_cost:
  "directCost offPeak unitWeights (1, 0) (0, 0) = Fin 11"
  "directCost offPeak unitWeights (1, 0) (0, 1) = Fin 2"
  by (simp_all add: eval_defs directCost_def quadCost_def offPeak_def unitWeights_def)

section \<open>Properties of the reduction primitives\<close>

text \<open>
  The index \<^verbatim>\<open>reduceMax\<close> records for a cell is the cell's offset \<open>n\<close> (or 0 when no plane
  exceeds \<open>-\<infinity>\<close> there), whichever plane wins: the loop assigns \<^verbatim>\<open>i = n\<close>, not \<^verbatim>\<open>i = k\<close>.
\<close>

lemma cellMax_index_aux:
  "fst (fold (\<lambda>x (i, v). if fgt x v then (n, x) else (i, v)) xs (i0, v0)) \<in> {i0, n}"
  by (induction xs arbitrary: i0 v0) auto

lemma cellMax_index: "fst (cellMax xs n) = 0 \<or> fst (cellMax xs n) = n"
  using cellMax_index_aux [of n xs 0 MInf] by (auto simp: cellMax_def)

text \<open>
  C4. The claim: \<open>maxIdx[cell]\<close> is the index \<open>k\<close> of the plane achieving the maximum,
  the earliest on ties, and lies in \<open>[0, K)\<close>. In the code, for the stack of
  \<open>risingPlane\<close> (larger everywhere) and \<open>flatPlane\<close>, the maxima are right but the indices
  are the cell offsets 0, 1, 2 instead of 0, 0, 0; the last is not below \<open>K = 2\<close>.
\<close>

theorem reduceMax_index_is_cell_offset:
  "reduceMax [risingPlane, flatPlane] =
     Inr (mkMat 1 3 [Fin 1, Fin 2, Fin 3], mkMat 1 3 [0, 1, 2])"
  by (simp add: eval_defs reduceMax_def cellMax_def risingPlane_def flatPlane_def)

lemma reduceMax_cross:
  "reduceMax [crossA, crossB] = Inr (mkMat 1 2 [Fin 3, Fin 5], mkMat 1 2 [0, 1])"
  by (simp add: eval_defs reduceMax_def cellMax_def crossA_def crossB_def)

lemma pick_cross:
  "reducePickIndex [crossA, crossB] (mkMat 1 2 [0, 1]) = Inr (mkMat 1 2 [Fin 1, Fin 2])"
  by (simp add: eval_defs reducePickIndex_def crossA_def crossB_def)

text \<open>With three cells and two planes the index plane of C4 fails the range assertion.\<close>

lemma pick_rising:
  "reducePickIndex [risingPlane, flatPlane] (mkMat 1 3 [0, 1, 2]) =
     Inl (AssertionFailed ''minv >= 0 && maxv < K'')"
  by (simp add: eval_defs reducePickIndex_def risingPlane_def flatPlane_def)

text \<open>
  C5. The claim: picking through \<^verbatim>\<open>reduceMax\<close>'s own index plane succeeds and gives back
  the plane of maxima. In the code, for the stack of \<open>crossA\<close> and \<open>crossB\<close>, the maxima
  are 3 and 5, the index plane is 0, 1 (the cell offsets), and picking through it gives
  1 and 2.
\<close>

theorem reducePickIndex_of_reduceMax_differs:
  "reduceMax [crossA, crossB] = Inr (mkMat 1 2 [Fin 3, Fin 5], mkMat 1 2 [0, 1]) \<and>
   reducePickIndex [crossA, crossB] (mkMat 1 2 [0, 1]) = Inr (mkMat 1 2 [Fin 1, Fin 2])"
  using reduceMax_cross pick_cross by simp

text \<open>
  C6. The claim: on a singleton stack \<^verbatim>\<open>reduceMax\<close> succeeds, returning the plane and an
  all-zero index plane. The code asserts \<open>K > 1\<close> first: on every singleton stack it
  fails that assertion and returns no plane.
\<close>

theorem reduceMax_singleton_fails: "reduceMax [A] = Inl (AssertionFailed ''K > 1'')"
  by (simp add: reduceMax_def)

theorem reduceMax_singleton_fails_witness:
  "reduceMax [risingPlane] = Inl (AssertionFailed ''K > 1'')"
  using reduceMax_singleton_fails [of risingPlane] by simp

text \<open>The claim of C6 as stated, refuted on the stack holding only \<open>risingPlane\<close>.\<close>

theorem reduceMax_singleton_counterexample:
  "reduceMax [risingPlane] \<noteq> Inr (risingPlane, mkMat 1 3 [0, 0, 0])"
  by (simp add: reduceMax_def)

section \<open>Properties of the message passing\<close>

lemma dt_minusInf:
  "distanceTransform minusInf [Fin 1, Fin 1, Fin 1, Fin 1] =
     Inr (minusInf, mkMat 2 2 [0, 0, 0, 0], mkMat 2 2 [0, 0, 0, 0])"
  by (simp add: eval_defs minusInf_def distanceTransform_def distanceTransformWith_def Let_def
      distanceTransform1D_def envelopeStep_def intersection_def popLoop.simps advance.simps)

lemma shift_minusInf:
  "shiftByAnchor (0, 0) 2 2 MInf minusInf = Inr minusInf"
  "shiftByAnchor (0, 0) 2 2 0 (mkMat 2 2 [0, 0, 0, 0]) = Inr (mkMat 2 2 [0, 0, 0, 0])"
  by (simp_all add: shiftByAnchor_def roiAssign_def validRange_def Let_def minusInf_def mkMat_def
      upt_conv_Cons)

lemma twoMixLeaf_sel:
  "nmixtures twoMixLeaf = 2" "pos twoMixLeaf = 1" "anchor twoMixLeaf = (0, 0)"
  "weights twoMixLeaf = [[Fin 1, Fin 1, Fin 1, Fin 1], [Fin 1, Fin 1, Fin 1, Fin 1]]"
  "bias twoMixLeaf = [[Fin 0, Fin 0], [Fin 0, Fin 0]]"
  "pos twoMixRoot = 0"
  by (simp_all add: twoMixLeaf_def twoMixRoot_def)

lemma minusInf_extent: "rows minusInf = 2" "cols minusInf = 2"
  by (simp_all add: minusInf_def mkMat_def)

lemma tm_minusInf:
  "Ns = 2 \<Longrightarrow> transformMixture twoMixLeaf [rawA, rawB, minusInf, minusInf] Ns 0 =
     Inr (minusInf, mkMat 2 2 [0, 0, 0, 0], mkMat 2 2 [0, 0, 0, 0])"
  "Ns = 2 \<Longrightarrow> transformMixture twoMixLeaf [rawA, rawB, minusInf, minusInf] Ns (Suc 0) =
     Inr (minusInf, mkMat 2 2 [0, 0, 0, 0], mkMat 2 2 [0, 0, 0, 0])"
  by (simp_all add: transformMixture_def twoMixLeaf_sel rd_def bindE_def dt_minusInf
      minusInf_extent shift_minusInf)

lemma mix_first:
  "mixStep twoMixLeaf [mkMat 2 2 [0, 0, 0, 0], mkMat 2 2 [0, 0, 0, 0]]
     [mkMat 2 2 [0, 0, 0, 0], mkMat 2 2 [0, 0, 0, 0]] 0 [rawA, rawB, minusInf, minusInf] 0 =
   Inr ([merged, rawB, minusInf, minusInf],
        (mkMat 2 2 [0, 0, 0, 0], mkMat 2 2 [0, 0, 0, 0], mkMat 2 2 [0, 1, 0, 0]))"
  by (simp add: mixStep_def twoMixLeaf_sel eval_defs reduceMax_def reducePickIndex_def cellMax_def
      rawA_def rawB_def merged_def)

lemma mix_second:
  "mixStep twoMixLeaf [mkMat 2 2 [0, 0, 0, 0], mkMat 2 2 [0, 0, 0, 0]]
     [mkMat 2 2 [0, 0, 0, 0], mkMat 2 2 [0, 0, 0, 0]] 0 [merged, rawB, minusInf, minusInf] (Suc 0) =
   Inr ([merged, merged, minusInf, minusInf],
        (mkMat 2 2 [0, 0, 0, 0], mkMat 2 2 [0, 0, 0, 0], mkMat 2 2 [0, 1, 0, 0]))"
  by (simp add: mixStep_def twoMixLeaf_sel eval_defs reduceMax_def reducePickIndex_def cellMax_def
      rawA_def rawB_def merged_def)

text \<open>
  At a leaf with finite raw planes: for \<open>twoMixLeaf\<close> under \<open>twoMixRoot\<close> the shifted,
  transformed planes (second component) are \<open>-\<infinity>\<close> everywhere, yet the plane written into
  both parent slots is \<open>merged\<close>, the cell-wise maximum of the raw planes \<open>rawA\<close> and
  \<open>rawB\<close> at positions 0 and 1.
\<close>

lemma leaf_node_mixes_raw_planes:
  "nodeMessage twoMixLeaf twoMixRoot [rawA, rawB, minusInf, minusInf] 2 0 =
     Inr ([merged, merged, minusInf, minusInf], [minusInf, minusInf],
          [(mkMat 2 2 [0, 0, 0, 0], mkMat 2 2 [0, 0, 0, 0], mkMat 2 2 [0, 1, 0, 0]),
           (mkMat 2 2 [0, 0, 0, 0], mkMat 2 2 [0, 0, 0, 0], mkMat 2 2 [0, 1, 0, 0])])"
  by (simp add: nodeMessage_def twoMixLeaf_sel upt_conv_Cons tm_minusInf bindE_def
      mix_first mix_second)

text \<open>The same at a node with a child: the middle part of the four-mixture chain.\<close>

lemma bindE_simps: "bindE (Inr x) f = f x" "bindE (Inl e) f = Inl e"
  by (simp_all add: bindE_def)

lemma plusPlanes_nth: "i < 12 \<Longrightarrow> plusPlanes ! i = plusInf"
  by (simp add: plusPlanes_def)

lemma plusPlanes_rd: "0 \<le> i \<Longrightarrow> i < 12 \<Longrightarrow> rd nm plusPlanes i = Inr plusInf"
  by (simp add: rd_def plusPlanes_def)

lemma plusPlanes_wr:
  "0 \<le> i \<Longrightarrow> i < 12 \<Longrightarrow> wr nm plusPlanes i plusInf = Inr plusPlanes"
  by (simp add: wr_def plusPlanes_def list_update_same_conv)

lemma rd_replicate: "0 \<le> i \<Longrightarrow> i < int n \<Longrightarrow> rd nm (replicate n x) i = Inr x"
  by (simp add: rd_def)

lemma rd_zero_bias:
  "0 \<le> i \<Longrightarrow> i < 4 \<Longrightarrow> rd nm [Fin 0, Fin 0, Fin 0, Fin 0] i = Inr (Fin 0)"
  by (auto simp: rd_def nth_Cons')

lemma fourMix_sel:
  "nmixtures fourMixLeaf = 4" "pos fourMixLeaf = 2" "anchor fourMixLeaf = (0, 0)"
  "weights fourMixLeaf = replicate 4 [Fin 1, Fin 1, Fin 1, Fin 1]"
  "bias fourMixLeaf = replicate 4 [Fin 0, Fin 0, Fin 0, Fin 0]"
  "children fourMixLeaf = []"
  "nmixtures fourMixMid = 4" "pos fourMixMid = 1" "anchor fourMixMid = (1, 0)"
  "weights fourMixMid = replicate 4 [Fin 1, Fin 1, Fin 1, Fin 1]"
  "bias fourMixMid = replicate 4 [Fin 0, Fin 0, Fin 0, Fin 0]"
  "children fourMixMid = [fourMixLeaf]"
  "pos fourMixRoot = 0"
  by (simp_all add: fourMixLeaf_def fourMixMid_def fourMixRoot_def)

lemma plusInf_extent: "rows plusInf = 2" "cols plusInf = 2"
  by (simp_all add: plusInf_def mkMat_def)

text \<open>
  On a row of equal infinities the intersection \<open>s\<close> is not a number, \<open>s \<le> z[k]\<close> is
  false, and the transform runs through: the plane stays \<open>+\<infinity>\<close>, all arguments are 0.
\<close>

lemma dt_plusInf:
  "distanceTransform plusInf [Fin 1, Fin 1, Fin 1, Fin 1] = Inr (plusInf, zeroIdx, zeroIdx)"
  by (simp add: eval_defs plusInf_def zeroIdx_def distanceTransform_def distanceTransformWith_def
      Let_def distanceTransform1D_def envelopeStep_def intersection_def popLoop.simps advance.simps)

lemma shift_plusInf:
  "shiftByAnchor (0, 0) 2 2 MInf plusInf = Inr plusInf"
  "shiftByAnchor (1, 0) 2 2 MInf plusInf = Inr halfInf"
  "shiftByAnchor (0, 0) 2 2 0 zeroIdx = Inr zeroIdx"
  "shiftByAnchor (1, 0) 2 2 0 zeroIdx = Inr zeroIdx"
  by (simp_all add: shiftByAnchor_def roiAssign_def validRange_def Let_def plusInf_def halfInf_def
      zeroIdx_def mkMat_def upt_conv_Cons)

lemma tm_leaf:
  "m < 4 \<Longrightarrow> Ns = 8 \<Longrightarrow>
   transformMixture fourMixLeaf plusPlanes Ns m = Inr (plusInf, zeroIdx, zeroIdx)"
  by (simp add: transformMixture_def fourMix_sel plusPlanes_rd rd_replicate bindE_def dt_plusInf
      plusInf_extent shift_plusInf)

lemma tm_mid:
  "m < 4 \<Longrightarrow> Ns = 4 \<Longrightarrow>
   transformMixture fourMixMid plusPlanes Ns m = Inr (halfInf, zeroIdx, zeroIdx)"
  by (simp add: transformMixture_def fourMix_sel plusPlanes_rd rd_replicate bindE_def dt_plusInf
      plusInf_extent shift_plusInf)

lemma plusInf_add: "addScalar plusInf (Fin 0) = plusInf"
  by (simp add: addScalar_def plusInf_def mkMat_def)

lemma weighted_plus:
  "mapE (\<lambda>mm. bindE (rd ''scores'' plusPlanes (int mm)) (\<lambda>S.
           bindE (rd ''bias[m]'' [Fin 0, Fin 0, Fin 0, Fin 0] (int mm)) (\<lambda>c. Inr (addScalar S c))))
     [0..<4] = Inr [plusInf, plusInf, plusInf, plusInf]"
  by (simp add: upt_conv_Cons plusPlanes_rd rd_zero_bias bindE_simps plusInf_add)

lemma reduceMax_plus:
  "reduceMax [plusInf, plusInf, plusInf, plusInf] = Inr (plusInf, offsetIdx)"
  by (simp add: eval_defs reduceMax_def cellMax_def plusInf_def offsetIdx_def)

lemma pick_zero:
  "reducePickIndex [zeroIdx, zeroIdx, zeroIdx, zeroIdx] offsetIdx = Inr zeroIdx"
  by (simp add: eval_defs reducePickIndex_def zeroIdx_def offsetIdx_def)

lemma mix_plus:
  assumes "nmixtures self = 4" "bias self = replicate 4 [Fin 0, Fin 0, Fin 0, Fin 0]"
    "m < 4" "Np + m < 12"
  shows "mixStep self [zeroIdx, zeroIdx, zeroIdx, zeroIdx] [zeroIdx, zeroIdx, zeroIdx, zeroIdx]
           Np plusPlanes m = Inr (plusPlanes, (zeroIdx, zeroIdx, offsetIdx))"
  using assms
  by (simp add: mixStep_def rd_replicate weighted_plus reduceMax_plus pick_zero plusPlanes_wr
      bindE_simps)

lemma node_leaf:
  "nodeMessage fourMixLeaf fourMixMid plusPlanes 3 0 =
     Inr (plusPlanes, replicate 4 plusInf, replicate 4 (zeroIdx, zeroIdx, offsetIdx))"
  by (simp add: nodeMessage_def fourMix_sel upt_conv_Cons tm_leaf bindE_def mix_plus
      numeral_eq_Suc)

lemma node_mid:
  "nodeMessage fourMixMid fourMixRoot plusPlanes 3 0 =
     Inr (plusPlanes, replicate 4 halfInf, replicate 4 (zeroIdx, zeroIdx, offsetIdx))"
  by (simp add: nodeMessage_def fourMix_sel upt_conv_Cons tm_mid bindE_def mix_plus
      numeral_eq_Suc)

lemma children_mid:
  "minChildren (children fourMixMid) fourMixMid plusPlanes 3 0 = Inr plusPlanes"
  using node_leaf by (simp add: fourMix_sel(12) fourMixLeaf_def isLeaf_def)

lemma rec_mid:
  "minRecursive fourMixMid fourMixRoot plusPlanes 3 0 = Inr plusPlanes"
  using node_mid children_mid by (simp add: fourMixMid_def isLeaf_def)

text \<open>
  What the claim's reading gives for the middle part: the maximum over the four shifted,
  transformed planes with the zero bias added is \<open>halfInf\<close>.
\<close>

lemma predicted_mid:
  "reduceMax (map (\<lambda>S. addScalar S (Fin 0)) (replicate 4 halfInf)) =
     Inr (halfInf, mkMat 2 2 [0, 1, 0, 0])"
  by (simp add: eval_defs reduceMax_def cellMax_def halfInf_def numeral_eq_Suc)

text \<open>
  C7. The claim: at every non-leaf node, for each parent mixture, the planes stacked and
  reduced are the anchor-shifted, distance-transformed planes of step 3 (not the raw
  global response planes), and the reduced plane is written into the parent's slot. In
  the code the second loop reads \<^verbatim>\<open>scores[mm]\<close>, the global planes 0 .. nmixtures-1, and
  never \<^verbatim>\<open>scoresi\<close>. For the middle part of the four-mixture chain, which has a child:
  the child's message leaves the planes as they are; the middle part's shifted,
  transformed planes are all \<open>halfInf\<close> (the anchor \<open>(1, 0)\<close> pushes the last row out), so
  the claim's reading writes \<open>halfInf\<close> into the parent's slots; the code stacks the
  root's raw planes 0 .. 3 and the parent's slot 0 holds \<open>plusInf\<close>.
\<close>

theorem minRecursive_nonleaf_stacks_raw_planes:
  "\<not> isLeaf fourMixMid \<and>
   minChildren (children fourMixMid) fourMixMid plusPlanes 3 0 = Inr plusPlanes \<and>
   nodeMessage fourMixMid fourMixRoot plusPlanes 3 0 =
     Inr (plusPlanes, replicate 4 halfInf, replicate 4 (zeroIdx, zeroIdx, offsetIdx)) \<and>
   minRecursive fourMixMid fourMixRoot plusPlanes 3 0 = Inr plusPlanes \<and>
   plusPlanes ! 0 = plusInf \<and> plusInf \<noteq> halfInf"
  using children_mid node_mid rec_mid
  by (simp add: isLeaf_def fourMix_sel plusPlanes_nth plusInf_def halfInf_def mkMat_def)

text \<open>
  The shift on its own. On the square 5 x 5 plane with anchor \<open>(1, 0)\<close> the peak moves
  from \<open>(2, 3)\<close> to \<open>(1, 3)\<close> and the last row is \<open>-\<infinity>\<close>. On a plane of 2 rows and 1 column
  with anchor \<open>(0, 0)\<close> the overlap is the whole plane, but only one cell is copied and
  the other is \<open>-\<infinity>\<close>: the x-range, computed from the number of columns, is passed as the
  row range, and the y-range, clipped with \<open>X\<close> as well, as the column range.
\<close>

lemma shift_square:
  "shiftByAnchor (1, 0) 5 5 MInf scenarioPeak =
     Inr (mkMat 5 5 (map (\<lambda>i. if i = 8 then Fin 10 else if i < 20 then Fin 0 else MInf) [0..<25]))"
  by (simp add: eval_defs shiftByAnchor_def roiAssign_def validRange_def Let_def scenarioPeak_def)

lemma shift_non_square:
  "shiftByAnchor (0, 0) 1 2 MInf (mkMat 2 1 [Fin 1, Fin 2]) = Inr (mkMat 2 1 [Fin 1, MInf])"
  by (simp add: eval_defs shiftByAnchor_def roiAssign_def validRange_def Let_def)

text \<open>
  C8. The claim: after the shift the cells of the overlap hold the shifted transformed
  score and the others \<open>-\<infinity>\<close>; in the two-node scenario the root's combined score peaks
  at \<open>(1, 3)\<close> with value 10. In the code the scenario produces no score: the leaf's
  distance transform reads \<open>v[-1]\<close> on the first row (the defect of C1).
\<close>

theorem minRecursive_scenario_fails:
  "minRecursive scenarioLeaf scenarioRoot [scenarioZero, scenarioPeak] 2 0 =
     Inl (OutOfBounds ''v'' (- 1))"
  by (simp add: eval_defs scenarioLeaf_def scenarioRoot_def scenarioZero_def scenarioPeak_def
      isLeaf_def nodeMessage_def transformMixture_def distanceTransform_def distanceTransformWith_def
      distanceTransform1D_def envelopeStep_def intersection_def popLoop.simps)

section \<open>Properties of the driver\<close>

text \<open>The assertion of \<^verbatim>\<open>min\<close> fails exactly when the count differs from
  \<open>ndescendants + (1 * nmixtures * nscales)\<close>.\<close>

lemma minDP_assert_iff:
  "(\<exists>s. minDP rootpart responses ns = Inl (AssertionFailed s)) \<longleftrightarrow>
   length responses \<noteq> ndescendants rootpart + nmixtures rootpart * ns"
  by (auto simp: minDP_def rd_def bindE_def Let_def split: if_splits)

lemma minDP_rejects:
  "minDP twoMixRoot [minusInf, minusInf, minusInf, minusInf] 1 =
     Inl (AssertionFailed
       ''responses.size() == (rootpart.ndescendants()+1 * rootpart.nmixtures() * nscales)'')"
  by (simp add: minDP_def twoMixRoot_def twoMixLeaf_def)

lemma minDP_accepts:
  "minDP twoMixRoot [minusInf, minusInf, minusInf] 1 = Inr [minusInf, minusInf, minusInf]"
  by (simp add: minDP_def twoMixRoot_def twoMixLeaf_def rd_def bindE_def)

lemma minDP_expected: "(ndescendants twoMixRoot + 1) * nmixtures twoMixRoot * 1 = 4"
  by (simp add: twoMixRoot_def twoMixLeaf_def)

text \<open>
  C9. The claim: \<^verbatim>\<open>min\<close> fails with a size mismatch if and only if the number of planes
  differs from \<open>(ndescendants + 1) * nmixtures * nscales\<close>. In the code the product binds
  tighter than the sum: for \<open>twoMixRoot\<close> (one descendant, two mixtures) and one scale
  the right count is 4, and the code rejects 4 planes and accepts 3.
\<close>

theorem minDP_size_check_precedence:
  "(ndescendants twoMixRoot + 1) * nmixtures twoMixRoot * 1 = 4 \<and>
   minDP twoMixRoot [minusInf, minusInf, minusInf, minusInf] 1 =
     Inl (AssertionFailed
       ''responses.size() == (rootpart.ndescendants()+1 * rootpart.nmixtures() * nscales)'') \<and>
   minDP twoMixRoot [minusInf, minusInf, minusInf] 1 = Inr [minusInf, minusInf, minusInf]"
  using minDP_expected minDP_rejects minDP_accepts by simp

text \<open>
  C10. The claim: for every image \<^verbatim>\<open>detect\<close> returns an empty vector. In the code
  \<^verbatim>\<open>detect\<close> calls \<^verbatim>\<open>min\<close> first, whose checks can fail. What holds: whenever \<^verbatim>\<open>min\<close>
  accepts the responses, \<^verbatim>\<open>detect\<close> returns the empty vector; whatever \<^verbatim>\<open>detect\<close> returns
  is empty; and when \<^verbatim>\<open>min\<close> fails, \<^verbatim>\<open>detect\<close> fails with the same error.
\<close>

theorem detect_reports_nothing:
  "(\<forall>r. minDP (rootPart D) (pdf (features D) (pyramid (features D) im) [])
           (nscales (features D)) = Inr r
        \<longrightarrow> detect D im = Inr [])
   \<and> (\<forall>cs. detect D im = Inr cs \<longrightarrow> cs = [])
   \<and> (\<forall>e. minDP (rootPart D) (pdf (features D) (pyramid (features D) im) [])
           (nscales (features D)) = Inl e
        \<longrightarrow> detect D im = Inl e)"
  by (auto simp: detect_def bindE_def Let_def argmin_def split: sum.splits)

theorem detect_reports_nothing_witness:
  "minDP scenarioRoot [scenarioZero, scenarioPeak] 1 = Inr [scenarioZero, scenarioPeak]
   \<and> detect \<lparr>features = twoPlaneFeatures, rootPart = scenarioRoot\<rparr> scenarioPeak = Inr []
   \<and> minDP scenarioRoot [] 1 =
       Inl (AssertionFailed
         ''responses.size() == (rootpart.ndescendants()+1 * rootpart.nmixtures() * nscales)'')
   \<and> detect \<lparr>features = emptyFeatures, rootPart = scenarioRoot\<rparr> scenarioPeak =
       Inl (AssertionFailed
         ''responses.size() == (rootpart.ndescendants()+1 * rootpart.nmixtures() * nscales)'')"
proof -
  have ok: "minDP scenarioRoot [scenarioZero, scenarioPeak] 1 = Inr [scenarioZero, scenarioPeak]"
    by (simp add: minDP_def scenarioRoot_def scenarioLeaf_def rd_def bindE_def)
  have bad: "minDP scenarioRoot [] 1 =
       Inl (AssertionFailed
         ''responses.size() == (rootpart.ndescendants()+1 * rootpart.nmixtures() * nscales)'')"
    by (simp add: minDP_def scenarioRoot_def scenarioLeaf_def)
  have "detect \<lparr>features = twoPlaneFeatures, rootPart = scenarioRoot\<rparr> scenarioPeak = Inr []"
    using ok detect_reports_nothing
      [of "\<lparr>features = twoPlaneFeatures, rootPart = scenarioRoot\<rparr>" scenarioPeak]
    by (simp add: twoPlaneFeatures_def)
  moreover have "detect \<lparr>features = emptyFeatures, rootPart = scenarioRoot\<rparr> scenarioPeak =
       Inl (AssertionFailed
         ''responses.size() == (rootpart.ndescendants()+1 * rootpart.nmixtures() * nscales)'')"
    using bad detect_reports_nothing
      [of "\<lparr>features = emptyFeatures, rootPart = scenarioRoot\<rparr>" scenarioPeak]
    by (simp add: emptyFeatures_def)
  ultimately show ?thesis using ok bad by simp
qed

text \<open>
  The claim of C10 as stated, refuted: with a feature provider that answers with no
  response plane, \<^verbatim>\<open>min\<close>'s assertion fails and \<^verbatim>\<open>detect\<close> returns nothing.
\<close>

theorem detect_counterexample:
  "detect \<lparr>features = emptyFeatures, rootPart = scenarioRoot\<rparr> scenarioPeak \<noteq> Inr []"
  by (simp add: detect_def emptyFeatures_def minDP_def scenarioRoot_def scenarioLeaf_def bindE_def)

end
